theory Spec2Isabelle
  imports Main "HOL-Library.Word"
begin

section \<open>The undo / redo history of the node editor (historyStack.ts)\<close>

text \<open>
  The class \<open>HistoryStack\<close> keeps two arrays of compressed snapshots of a node material:
  \<open>_history\<close> (oldest first, the last entry being the current state) and \<open>_redoStack\<close>.
  Its private \<open>_store\<close> is subscribed to four change channels of the editor, \<open>reset\<close> to
  the clear-undo-stack channel, and \<open>undo\<close> / \<open>redo\<close> are called by the editor.

  The class is embedded as functions on a record of its fields. What it calls and does not
  define (fflate, JSON, the node material's serializer and parser, the observables) is a
  parameter of every function, the record \<open>env\<close>. A callee that can throw returns a sum,
  \<open>Inl\<close> the exception. A callee that runs foreign code synchronously (observers, the
  parser) returns the list of things that code does to the editor, in order: it mutates the
  document, it fires one of the four change channels (which calls \<open>_store\<close> back on the same
  call stack), or it throws.
\<close>

subsection \<open>Data\<close>

type_synonym Uint8Array = "8 word list"

datatype error = InvalidData | SyntaxError | TypeError | Exception string

text \<open>A JavaScript value a method hands back; the methods of the class are all \<open>void\<close>.\<close>

datatype jsval = Undefined | Boolean bool

datatype completion = Return jsval | Throw error

datatype 'd event = Mutate "'d \<Rightarrow> 'd" | FireChange | Raise error

record ('d, 'j) env =
  UpdateLocations :: "'d \<Rightarrow> 'd"
  serialize :: "'d \<Rightarrow> error + 'j"
  JSON_stringify :: "'j \<Rightarrow> error + string"
  JSON_parse :: "string \<Rightarrow> error + 'j"
  strToU8 :: "string \<Rightarrow> Uint8Array"
  zlibSync :: "Uint8Array \<Rightarrow> error + Uint8Array"
  decompressSync :: "Uint8Array \<Rightarrow> error + Uint8Array"
  strFromU8 :: "Uint8Array \<Rightarrow> string"
  onSelectionChanged :: "'d \<Rightarrow> 'd event list"
  parseSerializedObject :: "'j \<Rightarrow> 'd \<Rightarrow> 'd event list"
  onResetRequired :: "'d \<Rightarrow> 'd event list"

text \<open>
  The fields of the class. \<open>nodeMaterial\<close> stands for the live document, that is the node
  material together with the editor's global state that \<open>UpdateLocations\<close> reads.
\<close>

record 'd HistoryStack =
  nodeMaterial :: 'd
  history :: "Uint8Array list"
  redoStack :: "Uint8Array list"
  locked :: bool

definition maxHistoryLength :: nat where
  "maxHistoryLength = 64"

text \<open>The field initialisers and the constructor (lines 25 to 56).\<close>

definition new_HistoryStack :: "'d \<Rightarrow> 'd HistoryStack" where
  "new_HistoryStack d = \<lparr>nodeMaterial = d, history = [], redoStack = [], locked = False\<rparr>"

subsection \<open>Compression (lines 67 to 75)\<close>

definition compress :: "('d, 'j) env \<Rightarrow> string \<Rightarrow> error + Uint8Array" where
  "compress env dataString = zlibSync env (strToU8 env dataString)"

definition decompress :: "('d, 'j) env \<Rightarrow> Uint8Array \<Rightarrow> error + string" where
  "decompress env data =
     (case decompressSync env data of
        Inl e \<Rightarrow> Inl e
      | Inr decompressed \<Rightarrow> Inr (strFromU8 env decompressed))"

subsection \<open>Capture: \<open>_store\<close> (lines 77 to 96)\<close>

text \<open>Line 83: \<open>JSON.stringify(this._nodeMaterial.serialize())\<close>.\<close>

definition dataString_of :: "('d, 'j) env \<Rightarrow> 'd \<Rightarrow> error + string" where
  "dataString_of env d =
     (case serialize env d of
        Inl e \<Rightarrow> Inl e
      | Inr obj \<Rightarrow> JSON_stringify env obj)"

text \<open>
  Line 85: the conjunction is evaluated left to right, so nothing is decompressed when the
  history is empty.
\<close>

definition same_as_top :: "('d, 'j) env \<Rightarrow> Uint8Array list \<Rightarrow> string \<Rightarrow> error + bool" where
  "same_as_top env h dataString =
     (if length h > 0 then
        (case decompress env (last h) of
           Inl e \<Rightarrow> Inl e
         | Inr topString \<Rightarrow> Inr (topString = dataString))
      else Inr False)"

text \<open>Lines 91 to 95: push, then \<open>splice(0, 1)\<close> when the array has grown past the bound.\<close>

definition push_bounded :: "Uint8Array list \<Rightarrow> Uint8Array \<Rightarrow> Uint8Array list" where
  "push_bounded h compressedData =
     (let h' = h @ [compressedData]
      in if length h' > maxHistoryLength then drop 1 h' else h')"

definition store :: "('d, 'j) env \<Rightarrow> 'd HistoryStack \<Rightarrow> completion \<times> 'd HistoryStack" where
  "store env s =
     (if locked s then (Return Undefined, s)
      else
        let s1 = s\<lparr>nodeMaterial := UpdateLocations env (nodeMaterial s)\<rparr>
        in case dataString_of env (nodeMaterial s1) of
             Inl e \<Rightarrow> (Throw e, s1)
           | Inr dataString \<Rightarrow>
               (case same_as_top env (history s1) dataString of
                  Inl e \<Rightarrow> (Throw e, s1)
                | Inr True \<Rightarrow> (Return Undefined, s1)
                | Inr False \<Rightarrow>
                    (case compress env dataString of
                       Inl e \<Rightarrow> (Throw e, s1)
                     | Inr compressedData \<Rightarrow>
                         (Return Undefined,
                          s1\<lparr>history := push_bounded (history s1) compressedData\<rparr>))))"

subsection \<open>Foreign code running inside a method\<close>

text \<open>
  The observers and the parser run on the caller's stack. A change channel they fire calls
  \<open>_store\<close> at once, on the history as it is at that moment; an exception of theirs, or of
  that \<open>_store\<close>, leaves through the method that called them.
\<close>

fun run_external ::
  "('d, 'j) env \<Rightarrow> 'd event list \<Rightarrow> 'd HistoryStack \<Rightarrow> completion \<times> 'd HistoryStack" where
  "run_external env [] s = (Return Undefined, s)"
| "run_external env (Mutate f # evs) s =
     run_external env evs (s\<lparr>nodeMaterial := f (nodeMaterial s)\<rparr>)"
| "run_external env (FireChange # evs) s =
     (case store env s of
        (Throw e, s') \<Rightarrow> (Throw e, s')
      | (Return v, s') \<Rightarrow> run_external env evs s')"
| "run_external env (Raise e # evs) s = (Throw e, s)"

subsection \<open>\<open>reset\<close> (lines 61 to 65)\<close>

definition reset :: "('d, 'j) env \<Rightarrow> 'd HistoryStack \<Rightarrow> completion \<times> 'd HistoryStack" where
  "reset env s = store env (s\<lparr>history := [], redoStack := []\<rparr>)"

subsection \<open>The restore shared by \<open>undo\<close> and \<open>redo\<close> (lines 111 to 117, 132 to 138)\<close>

text \<open>
  Both methods end with the same six statements on a snapshot \<open>data\<close>: notify the selection
  observers, decompress, parse, hand the object to the node material, notify the reset
  observers, clear \<open>_locked\<close>. Only a normal end reaches the last statement.
\<close>

definition restore ::
  "('d, 'j) env \<Rightarrow> Uint8Array \<Rightarrow> 'd HistoryStack \<Rightarrow> completion \<times> 'd HistoryStack" where
  "restore env data s =
     (case run_external env (onSelectionChanged env (nodeMaterial s)) s of
        (Throw e, s1) \<Rightarrow> (Throw e, s1)
      | (Return v, s1) \<Rightarrow>
          (case decompress env data of
             Inl e \<Rightarrow> (Throw e, s1)
           | Inr dataString \<Rightarrow>
               (case JSON_parse env dataString of
                  Inl e \<Rightarrow> (Throw e, s1)
                | Inr obj \<Rightarrow>
                    (case run_external env (parseSerializedObject env obj (nodeMaterial s1)) s1 of
                       (Throw e, s2) \<Rightarrow> (Throw e, s2)
                     | (Return v, s2) \<Rightarrow>
                         (case run_external env (onResetRequired env (nodeMaterial s2)) s2 of
                            (Throw e, s3) \<Rightarrow> (Throw e, s3)
                          | (Return v, s3) \<Rightarrow> (Return Undefined, s3\<lparr>locked := False\<rparr>))))))"

subsection \<open>\<open>undo\<close> (lines 101 to 118) and \<open>redo\<close> (lines 123 to 139)\<close>

definition undo :: "('d, 'j) env \<Rightarrow> 'd HistoryStack \<Rightarrow> completion \<times> 'd HistoryStack" where
  "undo env s =
     (if length (history s) < 2 then (Return Undefined, s)
      else
        let current = last (history s);
            popped = butlast (history s);
            previous = last popped
        in restore env previous
             (s\<lparr>locked := True, history := popped, redoStack := redoStack s @ [current]\<rparr>))"

definition redo :: "('d, 'j) env \<Rightarrow> 'd HistoryStack \<Rightarrow> completion \<times> 'd HistoryStack" where
  "redo env s =
     (if length (redoStack s) < 1 then (Return Undefined, s)
      else
        let current = last (redoStack s)
        in restore env current
             (s\<lparr>locked := True, redoStack := butlast (redoStack s),
                history := history s @ [current]\<rparr>))"

subsection \<open>\<open>dispose\<close> (lines 144 to 152)\<close>

definition dispose :: "'d HistoryStack \<Rightarrow> 'd HistoryStack" where
  "dispose s = s\<lparr>history := [], redoStack := []\<rparr>"

subsection \<open>The editor driving the class\<close>

text \<open>
  What the editor does with a history stack between two idle moments: an edit of the
  document announced on one of the four change channels (lines 37 to 51, each calling
  \<open>_store\<close>), a call of \<open>undo\<close> or \<open>redo\<close>, or the clear-undo-stack channel (line 53,
  calling \<open>reset\<close>). An exception ends the call and the editor goes on with the fields as
  the call left them.
\<close>

datatype 'd action = Change "'d \<Rightarrow> 'd" | Undo | Redo | ClearUndoStack

definition perform :: "('d, 'j) env \<Rightarrow> 'd action \<Rightarrow> 'd HistoryStack \<Rightarrow> 'd HistoryStack" where
  "perform env a s =
     snd (case a of
            Change f \<Rightarrow> store env (s\<lparr>nodeMaterial := f (nodeMaterial s)\<rparr>)
          | Undo \<Rightarrow> undo env s
          | Redo \<Rightarrow> redo env s
          | ClearUndoStack \<Rightarrow> reset env s)"

definition run :: "('d, 'j) env \<Rightarrow> 'd HistoryStack \<Rightarrow> 'd action list \<Rightarrow> 'd HistoryStack" where
  "run env s acts = foldl (\<lambda>s a. perform env a s) s acts"

definition reachable :: "('d, 'j) env \<Rightarrow> 'd HistoryStack \<Rightarrow> bool" where
  "reachable env s = (\<exists>d acts. s = run env (new_HistoryStack d) acts)"

subsection \<open>Vocabulary of the statements\<close>

text \<open>The document after a run of foreign code, and the exception that ends it, if any.\<close>

fun doc_after :: "'d event list \<Rightarrow> 'd \<Rightarrow> 'd" where
  "doc_after [] d = d"
| "doc_after (Mutate f # evs) d = doc_after evs (f d)"
| "doc_after (FireChange # evs) d = doc_after evs d"
| "doc_after (Raise e # evs) d = d"

fun first_raise :: "'d event list \<Rightarrow> error option" where
  "first_raise [] = None"
| "first_raise (Mutate f # evs) = first_raise evs"
| "first_raise (FireChange # evs) = first_raise evs"
| "first_raise (Raise e # evs) = Some e"

fun ended :: "error option \<Rightarrow> completion" where
  "ended None = Return Undefined"
| "ended (Some e) = Throw e"

text \<open>
  The contract the class relies on, stated for the callees it is given. Every document
  serializes; a serialized text compresses, and decompresses to itself; it parses, and the
  parser, wherever it starts from, ends without an exception in a document that serializes
  to that text; the observers do not throw, and those told of the reset leave the
  serialized text as it is.
\<close>

definition lawful :: "('d, 'j) env \<Rightarrow> bool" where
  "lawful env =
     ((\<forall>d. \<exists>t. dataString_of env d = Inr t) \<and>
      (\<forall>d t. dataString_of env d = Inr t \<longrightarrow>
         (\<exists>c. compress env t = Inr c \<and> decompress env c = Inr t)) \<and>
      (\<forall>d. first_raise (onSelectionChanged env d) = None) \<and>
      (\<forall>d t d'. dataString_of env d = Inr t \<longrightarrow>
         (\<exists>obj. JSON_parse env t = Inr obj \<and>
            first_raise (parseSerializedObject env obj d') = None \<and>
            dataString_of env (doc_after (parseSerializedObject env obj d') d') = Inr t)) \<and>
      (\<forall>d. first_raise (onResetRequired env d) = None \<and>
         dataString_of env (doc_after (onResetRequired env d) d) = dataString_of env d))"

text \<open>A buffer that decompresses to the serialized text of some document.\<close>

definition snapshot :: "('d, 'j) env \<Rightarrow> Uint8Array \<Rightarrow> bool" where
  "snapshot env c = (\<exists>d t. dataString_of env d = Inr t \<and> decompress env c = Inr t)"

text \<open>
  Between two calls: the guard is clear, the top of the Past Stack decompresses to the
  serialized text of the live document, and every entry of either stack is a snapshot.
\<close>

definition consistent :: "('d, 'j) env \<Rightarrow> 'd HistoryStack \<Rightarrow> bool" where
  "consistent env s =
     (\<not> locked s \<and>
      (history s \<noteq> [] \<longrightarrow>
         decompress env (last (history s)) = dataString_of env (nodeMaterial s)) \<and>
      (\<forall>c \<in> set (history s) \<union> set (redoStack s). snapshot env c))"

subsection \<open>A concrete editor\<close>

text \<open>
  A small editor on which the statements below are run. Its document is a string that
  serializes to itself, its compressor stores the UTF-8 bytes as they are, and its
  observers are noisy: every notification of the class, and every half of a parse (which
  clears the document before it rebuilds it), fires a change channel.
\<close>

definition demo_env :: "(string, string) env" where
  "demo_env =
     \<lparr>UpdateLocations = (\<lambda>d. d), serialize = Inr, JSON_stringify = Inr, JSON_parse = Inr,
      strToU8 = map (\<lambda>c. of_nat (of_char c)), zlibSync = Inr, decompressSync = Inr,
      strFromU8 = map (\<lambda>w. char_of (unat w)),
      onSelectionChanged = (\<lambda>d. [FireChange]),
      parseSerializedObject =
        (\<lambda>obj d. [Mutate (\<lambda>_. []), FireChange, Mutate (\<lambda>_. obj), FireChange]),
      onResetRequired = (\<lambda>d. [FireChange])\<rparr>"

text \<open>The documents \<open>A\<close>, \<open>B\<close>, \<open>C\<close> captured in turn; the same in the middle of an undo.\<close>

definition demo_AB :: "string HistoryStack" where
  "demo_AB = \<lparr>nodeMaterial = ''B'', history = [[65], [66]], redoStack = [], locked = False\<rparr>"

definition demo_ABC :: "string HistoryStack" where
  "demo_ABC =
     \<lparr>nodeMaterial = ''C'', history = [[65], [66], [67]], redoStack = [], locked = False\<rparr>"

definition demo_mid :: "string HistoryStack" where
  "demo_mid =
     \<lparr>nodeMaterial = ''C'', history = [[65], [66]], redoStack = [[67]], locked = True\<rparr>"

text \<open>
  The same editor with a codec that fails: the buffer \<open>[0]\<close> does not decompress and the
  text \<open>{\<close> does not parse.
\<close>

definition corrupt_env :: "(string, string) env" where
  "corrupt_env =
     demo_env
       \<lparr>JSON_parse := (\<lambda>t. if t = ''{'' then Inl SyntaxError else Inr t),
        decompressSync := (\<lambda>b. if b = [0] then Inl InvalidData else Inr b)\<rparr>"

definition corrupt_past :: "string HistoryStack" where
  "corrupt_past = \<lparr>nodeMaterial = ''B'', history = [[0], [66]], redoStack = [], locked = False\<rparr>"

definition corrupt_undone :: "string HistoryStack" where
  "corrupt_undone = \<lparr>nodeMaterial = ''A'', history = [[65]], redoStack = [[0]], locked = False\<rparr>"

definition corrupt_future :: "string HistoryStack" where
  "corrupt_future = \<lparr>nodeMaterial = ''A'', history = [[65]], redoStack = [[123]], locked = False\<rparr>"

text \<open>
  The state after sixty-four edits to documents that differ from one another, an undo and
  one more edit.
\<close>

definition distinct_edits :: "nat \<Rightarrow> string action list" where
  "distinct_edits n = map (\<lambda>i. Change (\<lambda>_. [char_of i])) [0..<n]"

definition full_then_undone :: "string HistoryStack" where
  "full_then_undone =
     run demo_env (new_HistoryStack []) (distinct_edits 64 @ [Undo, Change (\<lambda>_. ''new'')])"

section \<open>Properties\<close>

subsection \<open>Capture\<close>

lemma store_locked: "locked s \<Longrightarrow> store env s = (Return Undefined, s)"
  by (simp add: store_def)

lemma store_redoStack: "redoStack (snd (store env s)) = redoStack s"
  by (simp add: store_def Let_def split: sum.splits bool.splits)

lemma store_keeps_locked: "locked (snd (store env s)) = locked s"
  by (simp add: store_def Let_def split: sum.splits bool.splits)

subsection \<open>Foreign code under the guard\<close>

lemma run_external_locked:
  "locked s \<Longrightarrow>
   run_external env evs s =
     (ended (first_raise evs), s\<lparr>nodeMaterial := doc_after evs (nodeMaterial s)\<rparr>)"
proof (induction evs arbitrary: s)
  case Nil
  then show ?case by simp
next
  case (Cons ev evs)
  show ?case
  proof (cases ev)
    case (Mutate f)
    have "locked (s\<lparr>nodeMaterial := f (nodeMaterial s)\<rparr>)"
      using Cons.prems by simp
    from Cons.IH [OF this] show ?thesis
      using Mutate by simp
  next
    case FireChange
    from Cons.IH [OF Cons.prems] show ?thesis
      using FireChange Cons.prems by (simp add: store_locked)
  next
    case (Raise e)
    then show ?thesis by simp
  qed
qed

subsection \<open>The restore under the guard\<close>

text \<open>
  \<open>undo\<close> and \<open>redo\<close> set \<open>_locked\<close> before they move a snapshot, so the restore runs
  with the guard set, and nothing in it touches either stack.
\<close>

lemma restore_history: "locked s \<Longrightarrow> history (snd (restore env data s)) = history s"
  by (simp add: restore_def run_external_locked
      split: option.splits sum.splits prod.splits completion.splits)

lemma restore_redoStack: "locked s \<Longrightarrow> redoStack (snd (restore env data s)) = redoStack s"
  by (simp add: restore_def run_external_locked
      split: option.splits sum.splits prod.splits completion.splits)

lemma restore_no_boolean: "fst (restore env data s) \<noteq> Return (Boolean b)"
  by (simp add: restore_def split: option.splits sum.splits prod.splits completion.splits)

lemma undo_history:
  "history (snd (undo env s)) = (if length (history s) < 2 then history s else butlast (history s))"
  by (simp add: undo_def Let_def restore_history)

lemma redo_history:
  "history (snd (redo env s)) =
     (if length (redoStack s) < 1 then history s else history s @ [last (redoStack s)])"
  by (simp add: redo_def Let_def restore_history)

lemma undo_redoStack:
  "redoStack (snd (undo env s)) =
     (if length (history s) < 2 then redoStack s else redoStack s @ [last (history s)])"
  by (simp add: undo_def Let_def restore_redoStack)

lemma redo_redoStack: "redoStack (snd (redo env s)) = butlast (redoStack s)"
  by (simp add: redo_def Let_def restore_redoStack)

subsection \<open>C6: a transition never captures its own restore\<close>

text \<open>
  Claim C6. A capture request that arrives while the guard is set is ignored: \<open>_store\<close>
  returns at once and changes nothing, so foreign code that runs under the guard, whatever
  change channels it fires, leaves the Past Stack as it is. Hence after \<open>undo\<close> the Past
  Stack is the old one without its top, and after \<open>redo\<close> the old one with the popped
  Future entry, for every behaviour of the observers and of the parser: no entry is added
  by the restore.
\<close>

theorem restore_never_recaptures:
  "(locked g \<longrightarrow> store env g = (Return Undefined, g)) \<and>
   (locked g \<longrightarrow> history (snd (run_external env evs g)) = history g) \<and>
   history (snd (undo env s)) = (if length (history s) < 2 then history s else butlast (history s)) \<and>
   history (snd (redo env s)) =
     (if length (redoStack s) < 1 then history s else history s @ [last (redoStack s)])"
  by (simp add: store_locked run_external_locked undo_history redo_history)

text \<open>
  On the concrete editor the parser fires two change channels. Under the guard they add
  nothing; the same events without the guard would add two entries.
\<close>

theorem restore_never_recaptures_witness:
  "locked demo_mid \<and>
   store demo_env demo_mid = (Return Undefined, demo_mid) \<and>
   parseSerializedObject demo_env ''B'' ''C'' =
     [Mutate (\<lambda>_. []), FireChange, Mutate (\<lambda>_. ''B''), FireChange] \<and>
   history (snd (run_external demo_env (parseSerializedObject demo_env ''B'' ''C'') demo_mid))
     = [[65], [66]] \<and>
   history (snd (run_external demo_env (parseSerializedObject demo_env ''B'' ''C'')
                   (demo_mid\<lparr>locked := False\<rparr>)))
     = [[65], [66], [], [66]] \<and>
   history (snd (undo demo_env demo_ABC)) = [[65], [66]] \<and>
   history (snd (redo demo_env (snd (undo demo_env demo_ABC)))) = [[65], [66], [67]]"
proof -
  have l: "locked demo_mid"
    by (simp add: demo_mid_def)
  have p: "parseSerializedObject demo_env ''B'' ''C'' =
      [Mutate (\<lambda>_. []), FireChange, Mutate (\<lambda>_. ''B''), FireChange]"
    by (simp add: demo_env_def)
  have u: "history (snd (run_external demo_env (parseSerializedObject demo_env ''B'' ''C'')
                   (demo_mid\<lparr>locked := False\<rparr>))) = [[65], [66], [], [66]]"
    by code_simp
  have a: "history demo_ABC = [[65], [66], [67]]"
    by (simp add: demo_ABC_def)
  have b: "redoStack (snd (undo demo_env demo_ABC)) = [[67]]"
    by code_simp
  have c: "history (snd (undo demo_env demo_ABC)) = [[65], [66]]"
    using restore_never_recaptures [of demo_mid demo_env "[]" demo_ABC] a by simp
  show ?thesis
    using restore_never_recaptures
        [of demo_mid demo_env "parseSerializedObject demo_env ''B'' ''C''"
            "snd (undo demo_env demo_ABC)"]
      l p u b c
    by (simp add: demo_mid_def)
qed

subsection \<open>C8: a capture leaves the Future Stack alone\<close>

text \<open>
  Claim C8. \<open>_store\<close> never modifies the Future Stack, on any of its paths (guard set,
  exception, duplicate, new snapshot, eviction). The Future Stack grows only in \<open>undo\<close>,
  by the snapshot popped from the Past Stack, and loses an entry to the Past Stack only in
  \<open>redo\<close>; \<open>reset\<close> and \<open>dispose\<close> empty it.
\<close>

theorem capture_keeps_redoStack:
  "redoStack (snd (store env s)) = redoStack s \<and>
   redoStack (snd (undo env s)) =
     (if length (history s) < 2 then redoStack s else redoStack s @ [last (history s)]) \<and>
   redoStack (snd (redo env s)) = butlast (redoStack s) \<and>
   redoStack (snd (reset env s)) = [] \<and>
   redoStack (dispose s) = []"
  by (simp add: store_redoStack undo_redoStack redo_redoStack reset_def dispose_def)

subsection \<open>C5: undo and redo at the boundary\<close>

text \<open>
  Claim C5 says that \<open>undo\<close> with fewer than two past entries, and \<open>redo\<close> with no future
  entry, return false. Both methods are \<open>void\<close>: the guard's \<open>return;\<close> hands back
  \<open>undefined\<close>, as does the end of a performed transition.
\<close>

theorem boundary_calls_return_no_boolean:
  "length (history (new_HistoryStack ''A'')) < 2 \<and>
   length (redoStack (new_HistoryStack ''A'')) < 1 \<and>
   fst (undo demo_env (new_HistoryStack ''A'')) \<noteq> Return (Boolean False) \<and>
   fst (redo demo_env (new_HistoryStack ''A'')) \<noteq> Return (Boolean False)"
  by (simp add: new_HistoryStack_def undo_def redo_def)

text \<open>
  Claim C5, amended. \<open>undo\<close> with fewer than two past entries and \<open>redo\<close> with no future
  entry return \<open>undefined\<close> and change no field: neither stack, nor the document, nor the
  guard. Neither method ever returns a boolean.
\<close>

theorem boundary_calls_change_nothing:
  "(length (history s) < 2 \<longrightarrow> undo env s = (Return Undefined, s)) \<and>
   (length (redoStack s) < 1 \<longrightarrow> redo env s = (Return Undefined, s)) \<and>
   fst (undo env s) \<noteq> Return (Boolean b) \<and>
   fst (redo env s) \<noteq> Return (Boolean b)"
  by (simp add: undo_def redo_def Let_def restore_no_boolean)

theorem boundary_calls_change_nothing_witness:
  "length (history (new_HistoryStack ''A'')) < 2 \<and>
   length (redoStack (new_HistoryStack ''A'')) < 1 \<and>
   undo demo_env (new_HistoryStack ''A'') = (Return Undefined, new_HistoryStack ''A'') \<and>
   redo demo_env (new_HistoryStack ''A'') = (Return Undefined, new_HistoryStack ''A'')"
  using boundary_calls_change_nothing [of "new_HistoryStack ''A''" demo_env]
  by (simp add: new_HistoryStack_def)

subsection \<open>C3: a capture of the same text\<close>

text \<open>
  Claim C3. When the text \<open>_store\<close> serializes (line 83, after \<open>UpdateLocations\<close>) equals
  the decompressed top of the Past Stack, the capture returns without touching the Past
  Stack; the Future Stack and the guard are unchanged too.
\<close>

theorem store_same_text_is_noop:
  "history s \<noteq> [] \<Longrightarrow>
   dataString_of env (UpdateLocations env (nodeMaterial s)) = Inr t \<Longrightarrow>
   decompress env (last (history s)) = Inr t \<Longrightarrow>
   fst (store env s) = Return Undefined \<and>
   history (snd (store env s)) = history s \<and>
   redoStack (snd (store env s)) = redoStack s \<and>
   locked (snd (store env s)) = locked s"
  by (simp add: store_def same_as_top_def)

text \<open>Capturing \<open>B\<close> on top of \<open>B\<close> keeps two entries; capturing \<open>C\<close> there adds a third.\<close>

theorem store_same_text_is_noop_witness:
  "history demo_AB \<noteq> [] \<and>
   dataString_of demo_env (UpdateLocations demo_env (nodeMaterial demo_AB)) = Inr ''B'' \<and>
   decompress demo_env (last (history demo_AB)) = Inr ''B'' \<and>
   store demo_env demo_AB = (Return Undefined, demo_AB) \<and>
   length (history (snd (store demo_env demo_AB))) = 2 \<and>
   history (snd (store demo_env (demo_AB\<lparr>nodeMaterial := ''C''\<rparr>))) = [[65], [66], [67]]"
proof -
  have h: "history demo_AB \<noteq> []"
    by (simp add: demo_AB_def)
  have d: "dataString_of demo_env (UpdateLocations demo_env (nodeMaterial demo_AB)) = Inr ''B''"
    by code_simp
  have t: "decompress demo_env (last (history demo_AB)) = Inr ''B''"
    by code_simp
  have e: "store demo_env demo_AB = (Return Undefined, demo_AB)"
    by code_simp
  have f: "history (snd (store demo_env (demo_AB\<lparr>nodeMaterial := ''C''\<rparr>))) = [[65], [66], [67]]"
    by code_simp
  show ?thesis
    using store_same_text_is_noop [OF h d t] h d t e f by (simp add: demo_AB_def)
qed

subsection \<open>The paths through the restore\<close>

lemma restore_completes:
  "locked s \<Longrightarrow>
   first_raise (onSelectionChanged env (nodeMaterial s)) = None \<Longrightarrow>
   decompress env data = Inr t \<Longrightarrow>
   JSON_parse env t = Inr obj \<Longrightarrow>
   d1 = doc_after (onSelectionChanged env (nodeMaterial s)) (nodeMaterial s) \<Longrightarrow>
   first_raise (parseSerializedObject env obj d1) = None \<Longrightarrow>
   d2 = doc_after (parseSerializedObject env obj d1) d1 \<Longrightarrow>
   first_raise (onResetRequired env d2) = None \<Longrightarrow>
   restore env data s =
     (Return Undefined, s\<lparr>nodeMaterial := doc_after (onResetRequired env d2) d2, locked := False\<rparr>)"
  by (simp add: restore_def run_external_locked)

lemma restore_decompress_fails:
  "locked s \<Longrightarrow>
   first_raise (onSelectionChanged env (nodeMaterial s)) = None \<Longrightarrow>
   decompress env data = Inl e \<Longrightarrow>
   restore env data s =
     (Throw e, s\<lparr>nodeMaterial := doc_after (onSelectionChanged env (nodeMaterial s)) (nodeMaterial s)\<rparr>)"
  by (simp add: restore_def run_external_locked)

lemma restore_parse_fails:
  "locked s \<Longrightarrow>
   first_raise (onSelectionChanged env (nodeMaterial s)) = None \<Longrightarrow>
   decompress env data = Inr t \<Longrightarrow>
   JSON_parse env t = Inl e \<Longrightarrow>
   restore env data s =
     (Throw e, s\<lparr>nodeMaterial := doc_after (onSelectionChanged env (nodeMaterial s)) (nodeMaterial s)\<rparr>)"
  by (simp add: restore_def run_external_locked)

lemma restore_throw_locked:
  "locked s \<Longrightarrow> fst (restore env data s) = Throw e \<Longrightarrow> locked (snd (restore env data s))"
  by (simp add: restore_def run_external_locked
      split: option.splits sum.splits prod.splits completion.splits)

lemma undo_throw_locked: "fst (undo env s) = Throw e \<Longrightarrow> locked (snd (undo env s))"
  by (simp add: undo_def Let_def restore_throw_locked split: if_splits)

lemma redo_throw_locked: "fst (redo env s) = Throw e \<Longrightarrow> locked (snd (redo env s))"
  by (simp add: redo_def Let_def restore_throw_locked split: if_splits)

subsection \<open>C1: what undo does\<close>

text \<open>
  Claim C1. In every state whose Past Stack has at least two entries, \<open>undo\<close> removes the
  last entry of the Past Stack and appends that entry to the Future Stack, whatever happens
  afterwards. The document is then restored from the new top of the Past Stack: when no
  callee throws, \<open>undo\<close> returns with the document the parser built from the parsed,
  decompressed new top (and the observers then left), the guard cleared. The popped entry
  is never decompressed.
\<close>

theorem undo_moves_top_and_restores_previous:
  "2 \<le> length (history s) \<Longrightarrow>
   history (snd (undo env s)) = butlast (history s) \<and>
   redoStack (snd (undo env s)) = redoStack s @ [last (history s)] \<and>
   (first_raise (onSelectionChanged env (nodeMaterial s)) = None \<longrightarrow>
    decompress env (last (butlast (history s))) = Inr t \<longrightarrow>
    JSON_parse env t = Inr obj \<longrightarrow>
    d1 = doc_after (onSelectionChanged env (nodeMaterial s)) (nodeMaterial s) \<longrightarrow>
    first_raise (parseSerializedObject env obj d1) = None \<longrightarrow>
    d2 = doc_after (parseSerializedObject env obj d1) d1 \<longrightarrow>
    first_raise (onResetRequired env d2) = None \<longrightarrow>
    undo env s =
      (Return Undefined,
       s\<lparr>nodeMaterial := doc_after (onResetRequired env d2) d2,
         history := butlast (history s),
         redoStack := redoStack s @ [last (history s)],
         locked := False\<rparr>))"
  by (simp add: undo_history undo_redoStack) (simp add: undo_def Let_def restore_completes)

text \<open>
  With \<open>A\<close>, \<open>B\<close>, \<open>C\<close> captured and the document at \<open>C\<close>, undo leaves the document at
  \<open>B\<close>, the new top, not at the popped \<open>C\<close>.
\<close>

theorem undo_moves_top_and_restores_previous_witness:
  "2 \<le> length (history demo_ABC) \<and>
   first_raise (onSelectionChanged demo_env ''C'') = None \<and>
   decompress demo_env (last (butlast (history demo_ABC))) = Inr ''B'' \<and>
   decompress demo_env (last (history demo_ABC)) = Inr ''C'' \<and>
   JSON_parse demo_env ''B'' = Inr ''B'' \<and>
   first_raise (parseSerializedObject demo_env ''B'' ''C'') = None \<and>
   doc_after (parseSerializedObject demo_env ''B'' ''C'') ''C'' = ''B'' \<and>
   first_raise (onResetRequired demo_env ''B'') = None \<and>
   undo demo_env demo_ABC =
     (Return Undefined,
      \<lparr>nodeMaterial = ''B'', history = [[65], [66]], redoStack = [[67]], locked = False\<rparr>)"
proof -
  have n: "nodeMaterial demo_ABC = ''C''" "history demo_ABC = [[65], [66], [67]]"
    "redoStack demo_ABC = []"
    by (simp_all add: demo_ABC_def)
  have l: "2 \<le> length (history demo_ABC)" by (simp add: n)
  have r1: "first_raise (onSelectionChanged demo_env ''C'') = None" by code_simp
  have a1: "doc_after (onSelectionChanged demo_env ''C'') ''C'' = ''C''" by code_simp
  have dc: "decompress demo_env [66] = Inr ''B''" by code_simp
  have dd: "decompress demo_env [67] = Inr ''C''" by code_simp
  have jp: "JSON_parse demo_env ''B'' = Inr ''B''" by code_simp
  have r2: "first_raise (parseSerializedObject demo_env ''B'' ''C'') = None" by code_simp
  have a2: "doc_after (parseSerializedObject demo_env ''B'' ''C'') ''C'' = ''B''" by code_simp
  have r3: "first_raise (onResetRequired demo_env ''B'') = None" by code_simp
  have a3: "doc_after (onResetRequired demo_env ''B'') ''B'' = ''B''" by code_simp
  show ?thesis
    using undo_moves_top_and_restores_previous [OF l, of demo_env "''B''" "''B''" "''C''" "''B''"]
      r1 a1 dc dd jp r2 a2 r3 a3
    by (simp add: n)
qed

subsection \<open>C7: a decompression that fails\<close>

text \<open>
  Claim C7 says that a decompression failure inside \<open>undo\<close> or \<open>redo\<close> leaves the document
  and both stacks unchanged. The snapshot is moved (lines 107 to 109, 129 to 130) before
  anything is decompressed (lines 112, 133), and nothing moves it back: after the failed
  undo below the Past Stack has lost its top and the Future Stack has gained it.
\<close>

theorem failed_decompression_moves_snapshot:
  "undo corrupt_env corrupt_past =
     (Throw InvalidData,
      \<lparr>nodeMaterial = ''B'', history = [[0]], redoStack = [[66]], locked = True\<rparr>) \<and>
   history (snd (undo corrupt_env corrupt_past)) \<noteq> history corrupt_past \<and>
   redoStack (snd (undo corrupt_env corrupt_past)) \<noteq> redoStack corrupt_past \<and>
   nodeMaterial (snd (undo corrupt_env corrupt_past)) = nodeMaterial corrupt_past"
  by code_simp

text \<open>
  Claim C7, amended. If the decompression fails during \<open>undo\<close> or \<open>redo\<close>, the exception
  leaves the method before the parser has touched the document (the document is as the
  selection observers left it), with the snapshot already moved from one stack to the other
  and the guard set.
\<close>

theorem failed_decompression_state:
  "(2 \<le> length (history s) \<longrightarrow>
    first_raise (onSelectionChanged env (nodeMaterial s)) = None \<longrightarrow>
    decompress env (last (butlast (history s))) = Inl e \<longrightarrow>
    undo env s =
      (Throw e,
       s\<lparr>nodeMaterial := doc_after (onSelectionChanged env (nodeMaterial s)) (nodeMaterial s),
         history := butlast (history s),
         redoStack := redoStack s @ [last (history s)],
         locked := True\<rparr>)) \<and>
   (1 \<le> length (redoStack r) \<longrightarrow>
    first_raise (onSelectionChanged env (nodeMaterial r)) = None \<longrightarrow>
    decompress env (last (redoStack r)) = Inl e' \<longrightarrow>
    redo env r =
      (Throw e',
       r\<lparr>nodeMaterial := doc_after (onSelectionChanged env (nodeMaterial r)) (nodeMaterial r),
         history := history r @ [last (redoStack r)],
         redoStack := butlast (redoStack r),
         locked := True\<rparr>))"
  by (simp add: undo_def redo_def Let_def restore_decompress_fails)


theorem failed_decompression_state_witness:
  "2 \<le> length (history corrupt_past) \<and>
   first_raise (onSelectionChanged corrupt_env (nodeMaterial corrupt_past)) = None \<and>
   decompress corrupt_env (last (butlast (history corrupt_past))) = Inl InvalidData \<and>
   undo corrupt_env corrupt_past =
     (Throw InvalidData,
      \<lparr>nodeMaterial = ''B'', history = [[0]], redoStack = [[66]], locked = True\<rparr>) \<and>
   1 \<le> length (redoStack corrupt_undone) \<and>
   first_raise (onSelectionChanged corrupt_env (nodeMaterial corrupt_undone)) = None \<and>
   decompress corrupt_env (last (redoStack corrupt_undone)) = Inl InvalidData \<and>
   redo corrupt_env corrupt_undone =
     (Throw InvalidData,
      \<lparr>nodeMaterial = ''A'', history = [[65], [0]], redoStack = [], locked = True\<rparr>)"
proof -
  have n: "nodeMaterial corrupt_past = ''B''" "history corrupt_past = [[0], [66]]"
    "redoStack corrupt_past = []"
    "nodeMaterial corrupt_undone = ''A''" "history corrupt_undone = [[65]]"
    "redoStack corrupt_undone = [[0]]"
    by (simp_all add: corrupt_past_def corrupt_undone_def)
  have r1: "first_raise (onSelectionChanged corrupt_env ''B'') = None" by code_simp
  have r2: "first_raise (onSelectionChanged corrupt_env ''A'') = None" by code_simp
  have a1: "doc_after (onSelectionChanged corrupt_env ''B'') ''B'' = ''B''" by code_simp
  have a2: "doc_after (onSelectionChanged corrupt_env ''A'') ''A'' = ''A''" by code_simp
  have d: "decompress corrupt_env [0] = Inl InvalidData" by code_simp
  show ?thesis
    using failed_decompression_state
        [of corrupt_past corrupt_env InvalidData corrupt_undone InvalidData]
      r1 r2 a1 a2 d
    by (simp add: n)
qed

subsection \<open>C10: the guard after an exception\<close>

text \<open>
  Claim C10. An exception that leaves \<open>undo\<close> or \<open>redo\<close> leaves \<open>_locked\<close> set, and in
  that state \<open>_store\<close> returns at once without storing. A failing decompression and a
  failing \<open>JSON.parse\<close> are such exceptions: they reach the caller as they are.
\<close>

theorem failed_restore_keeps_guard:
  "(fst (undo env s) = Throw e \<longrightarrow>
      locked (snd (undo env s)) \<and>
      store env (snd (undo env s)) = (Return Undefined, snd (undo env s))) \<and>
   (fst (redo env r) = Throw e' \<longrightarrow>
      locked (snd (redo env r)) \<and>
      store env (snd (redo env r)) = (Return Undefined, snd (redo env r))) \<and>
   (2 \<le> length (history s) \<longrightarrow>
    first_raise (onSelectionChanged env (nodeMaterial s)) = None \<longrightarrow>
    decompress env (last (butlast (history s))) = Inl e \<or>
    (\<exists>t. decompress env (last (butlast (history s))) = Inr t \<and> JSON_parse env t = Inl e) \<longrightarrow>
    fst (undo env s) = Throw e) \<and>
   (1 \<le> length (redoStack r) \<longrightarrow>
    first_raise (onSelectionChanged env (nodeMaterial r)) = None \<longrightarrow>
    decompress env (last (redoStack r)) = Inl e' \<or>
    (\<exists>t. decompress env (last (redoStack r)) = Inr t \<and> JSON_parse env t = Inl e') \<longrightarrow>
    fst (redo env r) = Throw e')"
proof (intro conjI impI)
  assume "fst (undo env s) = Throw e"
  then show "locked (snd (undo env s))" by (rule undo_throw_locked)
  then show "store env (snd (undo env s)) = (Return Undefined, snd (undo env s))"
    by (rule store_locked)
next
  assume "fst (redo env r) = Throw e'"
  then show "locked (snd (redo env r))" by (rule redo_throw_locked)
  then show "store env (snd (redo env r)) = (Return Undefined, snd (redo env r))"
    by (rule store_locked)
next
  assume "2 \<le> length (history s)"
    and "first_raise (onSelectionChanged env (nodeMaterial s)) = None"
    and "decompress env (last (butlast (history s))) = Inl e \<or>
      (\<exists>t. decompress env (last (butlast (history s))) = Inr t \<and> JSON_parse env t = Inl e)"
  then show "fst (undo env s) = Throw e"
    by (auto simp: undo_def Let_def restore_decompress_fails restore_parse_fails)
next
  assume "1 \<le> length (redoStack r)"
    and "first_raise (onSelectionChanged env (nodeMaterial r)) = None"
    and "decompress env (last (redoStack r)) = Inl e' \<or>
      (\<exists>t. decompress env (last (redoStack r)) = Inr t \<and> JSON_parse env t = Inl e')"
  then show "fst (redo env r) = Throw e'"
    by (auto simp: redo_def Let_def restore_decompress_fails restore_parse_fails)
qed

text \<open>
  A failed undo (the new top does not decompress) and a failed redo (the popped text does
  not parse): each leaves the guard set, and a capture of an edited document then stores
  nothing.
\<close>

theorem failed_restore_keeps_guard_witness:
  "2 \<le> length (history corrupt_past) \<and>
   first_raise (onSelectionChanged corrupt_env (nodeMaterial corrupt_past)) = None \<and>
   decompress corrupt_env (last (butlast (history corrupt_past))) = Inl InvalidData \<and>
   fst (undo corrupt_env corrupt_past) = Throw InvalidData \<and>
   locked (snd (undo corrupt_env corrupt_past)) \<and>
   store corrupt_env (snd (undo corrupt_env corrupt_past)) =
     (Return Undefined, snd (undo corrupt_env corrupt_past)) \<and>
   store corrupt_env (snd (undo corrupt_env corrupt_past)\<lparr>nodeMaterial := ''D''\<rparr>) =
     (Return Undefined,
      \<lparr>nodeMaterial = ''D'', history = [[0]], redoStack = [[66]], locked = True\<rparr>) \<and>
   1 \<le> length (redoStack corrupt_future) \<and>
   first_raise (onSelectionChanged corrupt_env (nodeMaterial corrupt_future)) = None \<and>
   decompress corrupt_env (last (redoStack corrupt_future)) = Inr ''{'' \<and>
   JSON_parse corrupt_env ''{'' = Inl SyntaxError \<and>
   fst (redo corrupt_env corrupt_future) = Throw SyntaxError \<and>
   locked (snd (redo corrupt_env corrupt_future)) \<and>
   store corrupt_env (snd (redo corrupt_env corrupt_future)) =
     (Return Undefined, snd (redo corrupt_env corrupt_future))"
proof -
  have n: "nodeMaterial corrupt_past = ''B''" "history corrupt_past = [[0], [66]]"
    "redoStack corrupt_past = []"
    "nodeMaterial corrupt_future = ''A''" "history corrupt_future = [[65]]"
    "redoStack corrupt_future = [[123]]"
    by (simp_all add: corrupt_past_def corrupt_future_def)
  have r1: "first_raise (onSelectionChanged corrupt_env ''B'') = None" by code_simp
  have r2: "first_raise (onSelectionChanged corrupt_env ''A'') = None" by code_simp
  have d: "decompress corrupt_env [0] = Inl InvalidData" by code_simp
  have d': "decompress corrupt_env [123] = Inr ''{''" by code_simp
  have j: "JSON_parse corrupt_env ''{'' = Inl SyntaxError" by code_simp
  have k: "store corrupt_env (snd (undo corrupt_env corrupt_past)\<lparr>nodeMaterial := ''D''\<rparr>) =
     (Return Undefined,
      \<lparr>nodeMaterial = ''D'', history = [[0]], redoStack = [[66]], locked = True\<rparr>)"
    by code_simp
  show ?thesis
    using failed_restore_keeps_guard
        [of corrupt_env corrupt_past InvalidData corrupt_future SyntaxError]
      r1 r2 d d' j k
    by (simp add: n)
qed

subsection \<open>C9: reset\<close>

text \<open>
  Claim C9 says that \<open>reset\<close> leaves exactly one past entry in every state. \<open>reset\<close>
  captures through \<open>_store\<close>, which does nothing while the guard is set: there \<open>reset\<close>
  leaves both stacks empty. The guard is set inside a transition and, by C10, after a failed
  one; the run below reaches such a state from a new history stack.
\<close>

theorem reset_under_guard_leaves_no_entry:
  "locked demo_mid \<and>
   reset demo_env demo_mid =
     (Return Undefined, \<lparr>nodeMaterial = ''C'', history = [], redoStack = [], locked = True\<rparr>) \<and>
   length (history (snd (reset demo_env demo_mid))) \<noteq> 1 \<and>
   run corrupt_env (new_HistoryStack [])
     [Change (\<lambda>_. ''{''), Change (\<lambda>_. ''B''), Undo, ClearUndoStack] =
     \<lparr>nodeMaterial = ''B'', history = [], redoStack = [], locked = True\<rparr>"
  by code_simp

text \<open>
  Claim C9, amended. In every state with the guard clear, when the document serializes to
  \<open>t\<close> and \<open>t\<close> compresses to \<open>c\<close>, \<open>reset\<close> empties both stacks and captures: the Past
  Stack is \<open>[c]\<close>, the Future Stack is empty, the document (after \<open>UpdateLocations\<close>)
  serializes to \<open>t\<close>, and the entry decompresses to that text when \<open>decompress\<close> inverts
  \<open>compress\<close> on it. With the guard set, \<open>reset\<close> leaves both stacks empty.
\<close>

theorem reset_captures_baseline:
  "(\<not> locked s \<longrightarrow>
    dataString_of env (UpdateLocations env (nodeMaterial s)) = Inr t \<longrightarrow>
    compress env t = Inr c \<longrightarrow>
    reset env s =
      (Return Undefined,
       s\<lparr>nodeMaterial := UpdateLocations env (nodeMaterial s), history := [c], redoStack := []\<rparr>) \<and>
    dataString_of env (nodeMaterial (snd (reset env s))) = Inr t \<and>
    (decompress env c = Inr t \<longrightarrow>
     decompress env (last (history (snd (reset env s)))) =
       dataString_of env (nodeMaterial (snd (reset env s))))) \<and>
   (locked s \<longrightarrow> reset env s = (Return Undefined, s\<lparr>history := [], redoStack := []\<rparr>))"
  by (simp add: reset_def store_def same_as_top_def push_bounded_def maxHistoryLength_def)

theorem reset_captures_baseline_witness:
  "\<not> locked demo_ABC \<and>
   dataString_of demo_env (UpdateLocations demo_env (nodeMaterial demo_ABC)) = Inr ''C'' \<and>
   compress demo_env ''C'' = Inr [67] \<and>
   decompress demo_env [67] = Inr ''C'' \<and>
   reset demo_env (demo_ABC\<lparr>redoStack := [[68]]\<rparr>) =
     (Return Undefined,
      \<lparr>nodeMaterial = ''C'', history = [[67]], redoStack = [], locked = False\<rparr>) \<and>
   locked demo_mid \<and>
   reset demo_env demo_mid =
     (Return Undefined, \<lparr>nodeMaterial = ''C'', history = [], redoStack = [], locked = True\<rparr>)"
proof -
  have n: "nodeMaterial demo_ABC = ''C''" "\<not> locked demo_ABC" "locked demo_mid"
    by (simp_all add: demo_ABC_def demo_mid_def)
  have u: "UpdateLocations demo_env ''C'' = ''C''" by code_simp
  have d: "dataString_of demo_env ''C'' = Inr ''C''" by code_simp
  have c: "compress demo_env ''C'' = Inr [67]" by code_simp
  have e: "decompress demo_env [67] = Inr ''C''" by code_simp
  show ?thesis
    using reset_captures_baseline [of "demo_ABC\<lparr>redoStack := [[68]]\<rparr>" demo_env "''C''" "[67]"]
      reset_captures_baseline [of demo_mid demo_env "''C''" "[67]"]
      u d c e
    by (simp add: n) (simp add: demo_ABC_def demo_mid_def)
qed

subsection \<open>C4: the bound on the Past Stack\<close>

text \<open>
  \<open>_store\<close> keeps the Past Stack within \<open>_maxHistoryLength\<close>, dropping the entry at index
  0 when a push takes it past the bound; \<open>undo\<close> shortens it and \<open>reset\<close> leaves at most
  one entry.
\<close>

lemma store_history_bound:
  "length (history s) \<le> maxHistoryLength \<Longrightarrow>
   length (history (snd (store env s))) \<le> maxHistoryLength"
  by (auto simp: store_def push_bounded_def Let_def split: sum.splits bool.splits)

lemma undo_history_bound:
  "length (history s) \<le> maxHistoryLength \<Longrightarrow>
   length (history (snd (undo env s))) \<le> maxHistoryLength"
  by (auto simp: undo_history)

lemma reset_history_bound: "length (history (snd (reset env s))) \<le> maxHistoryLength"
  by (simp add: reset_def store_history_bound)

lemma store_evicts_oldest:
  "\<not> locked s \<Longrightarrow> length (history s) = maxHistoryLength \<Longrightarrow>
   dataString_of env (UpdateLocations env (nodeMaterial s)) = Inr t \<Longrightarrow>
   decompress env (last (history s)) = Inr t' \<Longrightarrow> t' \<noteq> t \<Longrightarrow>
   compress env t = Inr c \<Longrightarrow>
   history (snd (store env s)) = tl (history s) @ [c]"
  by (cases "history s")
    (simp_all add: store_def same_as_top_def push_bounded_def maxHistoryLength_def)

text \<open>
  Claim C4 says that the Past Stack never exceeds \<open>_maxHistoryLength\<close>, also after
  \<open>redo\<close>. \<open>redo\<close> pushes onto \<open>_history\<close> (line 130) without the check \<open>_store\<close> makes
  (lines 93 to 95), and a capture does not clear the Future Stack. After sixty-four
  captures, an undo and one more capture, the Past Stack is full again and the Future Stack
  holds an entry; \<open>redo\<close> then leaves sixty-five entries.
\<close>

theorem redo_exceeds_maxHistoryLength:
  "reachable demo_env full_then_undone \<and>
   length (history full_then_undone) = maxHistoryLength \<and>
   length (redoStack full_then_undone) = 1 \<and>
   fst (redo demo_env full_then_undone) = Return Undefined \<and>
   length (history (snd (redo demo_env full_then_undone))) = 65 \<and>
   maxHistoryLength < length (history (snd (redo demo_env full_then_undone)))"
proof -
  have r: "reachable demo_env full_then_undone"
    unfolding reachable_def full_then_undone_def by blast
  have s: "full_then_undone =
      \<lparr>nodeMaterial = ''new'', history = map (\<lambda>i. [of_nat i]) [0..<63] @ [[110, 101, 119]],
       redoStack = [[63]], locked = False\<rparr>"
    by code_simp
  have "fst (redo demo_env full_then_undone) = Return Undefined"
    unfolding s by code_simp
  then have e: "length (history full_then_undone) = 64 \<and> length (redoStack full_then_undone) = 1 \<and>
      fst (redo demo_env full_then_undone) = Return Undefined"
    by (simp add: s)
  then have "length (history (snd (redo demo_env full_then_undone))) = 65"
    by (simp add: redo_history)
  then show ?thesis
    using r e by (simp add: maxHistoryLength_def)
qed

subsection \<open>C2: undo, then redo\<close>

text \<open>
  The states the editor can reach are consistent, when the callees keep their contract.
\<close>

lemma consistent_new: "consistent env (new_HistoryStack d)"
  by (simp add: consistent_def new_HistoryStack_def)

lemma last_push_bounded: "last (push_bounded h c) = c"
  by (cases h) (simp_all add: push_bounded_def Let_def maxHistoryLength_def)

lemma set_push_bounded: "set (push_bounded h c) \<subseteq> insert c (set h)"
proof -
  have "set (drop 1 (h @ [c])) \<subseteq> set (h @ [c])" by (rule set_drop_subset)
  then show ?thesis by (auto simp: push_bounded_def Let_def)
qed

lemma push_bounded_not_Nil: "push_bounded h c \<noteq> []"
  by (cases h) (simp_all add: push_bounded_def Let_def maxHistoryLength_def)

lemma store_consistent:
  assumes law: "lawful env" and unl: "\<not> locked s"
    and snaps: "\<forall>c \<in> set (history s) \<union> set (redoStack s). snapshot env c"
  shows "fst (store env s) = Return Undefined \<and> consistent env (snd (store env s))"
proof -
  let ?d = "UpdateLocations env (nodeMaterial s)"
  from law obtain t where t: "dataString_of env ?d = Inr t"
    unfolding lawful_def by blast
  from law t obtain c where c: "compress env t = Inr c" "decompress env c = Inr t"
    unfolding lawful_def by blast
  have snap_c: "snapshot env c"
    unfolding snapshot_def using t c by blast
  show ?thesis
  proof (cases "history s = []")
    case True
    then show ?thesis
      using unl t c snaps snap_c
      by (simp add: store_def same_as_top_def consistent_def last_push_bounded
          push_bounded_def maxHistoryLength_def)
  next
    case False
    then have "last (history s) \<in> set (history s)" by simp
    with snaps obtain t' where t': "decompress env (last (history s)) = Inr t'"
      unfolding snapshot_def by blast
    show ?thesis
    proof (cases "t' = t")
      case True
      then show ?thesis
        using unl t t' snaps False
        by (simp add: store_def same_as_top_def consistent_def)
    next
      case neq: False
      have sub: "set (push_bounded (history s) c) \<subseteq> insert c (set (history s))"
        by (rule set_push_bounded)
      have "\<forall>x \<in> set (push_bounded (history s) c) \<union> set (redoStack s). snapshot env x"
        using sub snaps snap_c by auto
      then show ?thesis
        using unl t t' c neq False
        by (simp add: store_def same_as_top_def consistent_def last_push_bounded
            push_bounded_not_Nil)
    qed
  qed
qed

lemma restore_lawful:
  assumes law: "lawful env" and l: "locked s" and snap: "snapshot env data"
  shows "\<exists>d. restore env data s = (Return Undefined, s\<lparr>nodeMaterial := d, locked := False\<rparr>) \<and>
             dataString_of env d = decompress env data"
proof -
  from snap obtain d0 t where t: "dataString_of env d0 = Inr t" "decompress env data = Inr t"
    unfolding snapshot_def by blast
  let ?d1 = "doc_after (onSelectionChanged env (nodeMaterial s)) (nodeMaterial s)"
  from law have r1: "first_raise (onSelectionChanged env (nodeMaterial s)) = None"
    unfolding lawful_def by blast
  from law t(1) obtain obj where obj: "JSON_parse env t = Inr obj"
    "first_raise (parseSerializedObject env obj ?d1) = None"
    "dataString_of env (doc_after (parseSerializedObject env obj ?d1) ?d1) = Inr t"
    unfolding lawful_def by blast
  let ?d2 = "doc_after (parseSerializedObject env obj ?d1) ?d1"
  from law have r3: "first_raise (onResetRequired env ?d2) = None"
    "dataString_of env (doc_after (onResetRequired env ?d2) ?d2) = dataString_of env ?d2"
    unfolding lawful_def by blast+
  have "restore env data s =
      (Return Undefined, s\<lparr>nodeMaterial := doc_after (onResetRequired env ?d2) ?d2, locked := False\<rparr>)"
    by (rule restore_completes [OF l r1 t(2) obj(1) refl obj(2) refl r3(1)])
  moreover have "dataString_of env (doc_after (onResetRequired env ?d2) ?d2) = decompress env data"
    using r3(2) obj(3) t(2) by simp
  ultimately show ?thesis by blast
qed

lemma undo_consistent:
  assumes law: "lawful env" and con: "consistent env s"
  shows "fst (undo env s) = Return Undefined \<and> consistent env (snd (undo env s))"
proof (cases "length (history s) < 2")
  case True
  then show ?thesis using con by (simp add: undo_def)
next
  case False
  let ?h = "history s"
  let ?s0 = "s\<lparr>locked := True, history := butlast ?h, redoStack := redoStack s @ [last ?h]\<rparr>"
  from False have ne: "?h \<noteq> []" "butlast ?h \<noteq> []"
    by (cases ?h; cases "tl ?h"; auto)+
  have in1: "last ?h \<in> set ?h" using ne by simp
  have in2: "last (butlast ?h) \<in> set ?h"
    using ne by (meson in_set_butlastD last_in_set)
  have snaps: "\<forall>c \<in> set ?h \<union> set (redoStack s). snapshot env c"
    using con by (simp add: consistent_def)
  have snap: "snapshot env (last (butlast ?h))" using snaps in2 by blast
  have l: "locked ?s0" by simp
  from restore_lawful [OF law l snap] obtain d where
    d: "restore env (last (butlast ?h)) ?s0 = (Return Undefined, ?s0\<lparr>nodeMaterial := d, locked := False\<rparr>)"
      "dataString_of env d = decompress env (last (butlast ?h))"
    by blast
  have u: "undo env s = (Return Undefined, ?s0\<lparr>nodeMaterial := d, locked := False\<rparr>)"
    using False d(1) by (simp add: undo_def Let_def)
  have "\<forall>c \<in> set (butlast ?h) \<union> set (redoStack s @ [last ?h]). snapshot env c"
    using snaps in1 by (auto dest: in_set_butlastD)
  then have "consistent env (?s0\<lparr>nodeMaterial := d, locked := False\<rparr>)"
    using d(2) ne by (simp add: consistent_def)
  then show ?thesis using u by simp
qed

lemma redo_consistent:
  assumes law: "lawful env" and con: "consistent env s"
  shows "fst (redo env s) = Return Undefined \<and> consistent env (snd (redo env s))"
proof (cases "length (redoStack s) < 1")
  case True
  then show ?thesis using con by (simp add: redo_def)
next
  case False
  let ?r = "redoStack s"
  let ?s0 = "s\<lparr>locked := True, redoStack := butlast ?r, history := history s @ [last ?r]\<rparr>"
  from False have ne: "?r \<noteq> []" by auto
  have in1: "last ?r \<in> set ?r" using ne by simp
  have snaps: "\<forall>c \<in> set (history s) \<union> set ?r. snapshot env c"
    using con by (simp add: consistent_def)
  have snap: "snapshot env (last ?r)" using snaps in1 by blast
  have l: "locked ?s0" by simp
  from restore_lawful [OF law l snap] obtain d where
    d: "restore env (last ?r) ?s0 = (Return Undefined, ?s0\<lparr>nodeMaterial := d, locked := False\<rparr>)"
      "dataString_of env d = decompress env (last ?r)"
    by blast
  have u: "redo env s = (Return Undefined, ?s0\<lparr>nodeMaterial := d, locked := False\<rparr>)"
    using False d(1) by (simp add: redo_def Let_def)
  have "\<forall>c \<in> set (history s @ [last ?r]) \<union> set (butlast ?r). snapshot env c"
    using snaps in1 by (auto dest: in_set_butlastD)
  then have "consistent env (?s0\<lparr>nodeMaterial := d, locked := False\<rparr>)"
    using d(2) by (simp add: consistent_def)
  then show ?thesis using u by simp
qed

lemma perform_consistent:
  assumes law: "lawful env" and con: "consistent env s"
  shows "consistent env (perform env a s)"
proof (cases a)
  case (Change f)
  have "\<not> locked (s\<lparr>nodeMaterial := f (nodeMaterial s)\<rparr>)"
    "\<forall>c \<in> set (history (s\<lparr>nodeMaterial := f (nodeMaterial s)\<rparr>)) \<union>
        set (redoStack (s\<lparr>nodeMaterial := f (nodeMaterial s)\<rparr>)). snapshot env c"
    using con by (simp_all add: consistent_def)
  from store_consistent [OF law this] show ?thesis
    using Change by (simp add: perform_def)
next
  case Undo
  then show ?thesis using undo_consistent [OF law con] by (simp add: perform_def)
next
  case Redo
  then show ?thesis using redo_consistent [OF law con] by (simp add: perform_def)
next
  case ClearUndoStack
  have "\<not> locked (s\<lparr>history := [], redoStack := []\<rparr>)"
    "\<forall>c \<in> set (history (s\<lparr>history := [], redoStack := []\<rparr>)) \<union>
        set (redoStack (s\<lparr>history := [], redoStack := []\<rparr>)). snapshot env c"
    using con by (simp_all add: consistent_def)
  from store_consistent [OF law this] show ?thesis
    using ClearUndoStack by (simp add: perform_def reset_def)
qed

lemma run_consistent:
  assumes law: "lawful env"
  shows "consistent env s \<Longrightarrow> consistent env (run env s acts)"
proof (induction acts arbitrary: s)
  case Nil
  then show ?case by (simp add: run_def)
next
  case (Cons a acts)
  have "consistent env (perform env a s)"
    using law Cons.prems by (rule perform_consistent)
  then have "consistent env (run env (perform env a s) acts)"
    by (rule Cons.IH)
  then show ?case by (simp add: run_def)
qed

lemma reachable_consistent:
  assumes law: "lawful env" and reach: "reachable env s"
  shows "consistent env s"
proof -
  from reach obtain d acts where s: "s = run env (new_HistoryStack d) acts"
    unfolding reachable_def by blast
  have "consistent env (run env (new_HistoryStack d) acts)"
    using law consistent_new by (rule run_consistent)
  then show ?thesis using s by simp
qed

lemma undo_redo_stacks:
  assumes "2 \<le> length (history s)"
  shows "history (snd (redo env (snd (undo env s)))) = history s \<and>
         redoStack (snd (redo env (snd (undo env s)))) = redoStack s"
proof -
  from assms have "history s \<noteq> []" by auto
  then show ?thesis
    using assms by (simp add: redo_history redo_redoStack undo_history undo_redoStack)
qed

text \<open>
  Claim C2. In any state whose Past Stack has at least two entries (where \<open>undo\<close> performs
  a transition), \<open>undo\<close> followed at once by \<open>redo\<close> leaves both stacks with the contents
  they had before. When the callees keep their contract and the state is one the editor
  can reach from a new history stack by announced edits, undos, redos and resets, both
  calls return normally and the document serializes to the very text it serialized to
  before the undo.
\<close>

theorem undo_redo_round_trip:
  "(2 \<le> length (history s) \<longrightarrow>
      history (snd (redo env (snd (undo env s)))) = history s \<and>
      redoStack (snd (redo env (snd (undo env s)))) = redoStack s) \<and>
   (lawful env \<longrightarrow> reachable env s \<longrightarrow> 2 \<le> length (history s) \<longrightarrow>
      fst (undo env s) = Return Undefined \<and>
      fst (redo env (snd (undo env s))) = Return Undefined \<and>
      dataString_of env (nodeMaterial (snd (redo env (snd (undo env s))))) =
        dataString_of env (nodeMaterial s))"
proof (intro conjI impI)
  assume len: "2 \<le> length (history s)"
  show "history (snd (redo env (snd (undo env s)))) = history s"
    using undo_redo_stacks [OF len, of env] by simp
  show "redoStack (snd (redo env (snd (undo env s)))) = redoStack s"
    using undo_redo_stacks [OF len, of env] by simp
next
  assume law: "lawful env" and reach: "reachable env s" and len: "2 \<le> length (history s)"
  have con: "consistent env s" using law reach by (rule reachable_consistent)
  have u: "fst (undo env s) = Return Undefined" "consistent env (snd (undo env s))"
    using undo_consistent [OF law con] by simp_all
  have r: "fst (redo env (snd (undo env s))) = Return Undefined"
    "consistent env (snd (redo env (snd (undo env s))))"
    using redo_consistent [OF law u(2)] by simp_all
  show "fst (undo env s) = Return Undefined" by (rule u(1))
  show "fst (redo env (snd (undo env s))) = Return Undefined" by (rule r(1))
  have h: "history (snd (redo env (snd (undo env s)))) = history s"
    using undo_redo_stacks [OF len, of env] by simp
  have ne: "history s \<noteq> []" using len by auto
  have "decompress env (last (history s)) =
      dataString_of env (nodeMaterial (snd (redo env (snd (undo env s)))))"
    using r(2) h ne by (simp add: consistent_def)
  moreover have "decompress env (last (history s)) = dataString_of env (nodeMaterial s)"
    using con ne by (simp add: consistent_def)
  ultimately show "dataString_of env (nodeMaterial (snd (redo env (snd (undo env s))))) =
      dataString_of env (nodeMaterial s)"
    by simp
qed

text \<open>The concrete editor keeps the contract.\<close>

lemma demo_codec: "strFromU8 demo_env (strToU8 demo_env t) = t"
proof -
  have "char_of (unat (of_nat (of_char c) :: 8 word)) = c" for c
    by (simp add: unat_of_nat)
  then show ?thesis by (simp add: demo_env_def comp_def)
qed

lemma demo_dataString: "dataString_of demo_env d = Inr d"
  by (simp add: dataString_of_def demo_env_def)

lemma demo_compress: "compress demo_env t = Inr (strToU8 demo_env t)"
  by (simp add: compress_def demo_env_def)

lemma demo_decompress: "decompress demo_env c = Inr (strFromU8 demo_env c)"
  by (simp add: decompress_def demo_env_def)

lemma demo_observers:
  "first_raise (onSelectionChanged demo_env d) = None"
  "first_raise (onResetRequired demo_env d) = None"
  "doc_after (onResetRequired demo_env d) d = d"
  "JSON_parse demo_env t = Inr t"
  "first_raise (parseSerializedObject demo_env t d) = None"
  "doc_after (parseSerializedObject demo_env t d) d = t"
  by (simp_all add: demo_env_def)

lemma demo_lawful: "lawful demo_env"
  unfolding lawful_def
  by (simp add: demo_dataString demo_compress demo_decompress demo_codec demo_observers)

text \<open>
  From a new history stack the edits \<open>A\<close>, \<open>B\<close>, \<open>C\<close> reach the state of the running
  example; undo takes the document to \<open>B\<close>, redo back to \<open>C\<close>.
\<close>

theorem undo_redo_round_trip_witness:
  "lawful demo_env \<and> reachable demo_env demo_ABC \<and> 2 \<le> length (history demo_ABC) \<and>
   undo demo_env demo_ABC =
     (Return Undefined,
      \<lparr>nodeMaterial = ''B'', history = [[65], [66]], redoStack = [[67]], locked = False\<rparr>) \<and>
   fst (redo demo_env (snd (undo demo_env demo_ABC))) = Return Undefined \<and>
   history (snd (redo demo_env (snd (undo demo_env demo_ABC)))) = [[65], [66], [67]] \<and>
   redoStack (snd (redo demo_env (snd (undo demo_env demo_ABC)))) = [] \<and>
   dataString_of demo_env (nodeMaterial (snd (redo demo_env (snd (undo demo_env demo_ABC)))))
     = Inr ''C''"
proof -
  have "demo_ABC =
      run demo_env (new_HistoryStack [])
        [Change (\<lambda>_. ''A''), Change (\<lambda>_. ''B''), Change (\<lambda>_. ''C'')]"
    by code_simp
  then have reach: "reachable demo_env demo_ABC"
    unfolding reachable_def by blast
  have n: "history demo_ABC = [[65], [66], [67]]" "redoStack demo_ABC = []"
    "nodeMaterial demo_ABC = ''C''"
    by (simp_all add: demo_ABC_def)
  have u: "undo demo_env demo_ABC =
     (Return Undefined,
      \<lparr>nodeMaterial = ''B'', history = [[65], [66]], redoStack = [[67]], locked = False\<rparr>)"
    by code_simp
  have d: "dataString_of demo_env ''C'' = Inr ''C''" by code_simp
  show ?thesis
    using undo_redo_round_trip [of demo_ABC demo_env] demo_lawful reach u d
    by (simp add: n)
qed

end
